theory Spec2Isabelle
  imports Main "HOL-Library.Sublist" "HOL-Library.AList"
begin

section \<open>JavaScript strings\<close>

text \<open>
  A string is the list of its UTF-16 code units, and a character is a code unit below
  256, that is a character of the Latin-1 range. On this range the built-in
  \<^verbatim>\<open>String.prototype.toLowerCase\<close> works unit by unit: it maps the letters A to Z and
  the capital letters from U+00C0 to U+00DE (the multiplication sign U+00D7 apart) to
  the unit 32 above and keeps every other unit. \<open>str_includes s t\<close> is
  \<^verbatim>\<open>s.includes(t)\<close>: \<open>t\<close> occurs in \<open>s\<close> as a contiguous run of units.
\<close>

definition upper_letters :: string where
  "upper_letters =
     ''ABCDEFGHIJKLMNOPQRSTUVWXYZ'' @
         [
          CHR 0xC0, CHR 0xC1, CHR 0xC2, CHR 0xC3, CHR 0xC4, CHR 0xC5, CHR 0xC6, CHR 0xC7,
          CHR 0xC8, CHR 0xC9, CHR 0xCA, CHR 0xCB, CHR 0xCC, CHR 0xCD, CHR 0xCE, CHR 0xCF,
          CHR 0xD0, CHR 0xD1, CHR 0xD2, CHR 0xD3, CHR 0xD4, CHR 0xD5, CHR 0xD6, CHR 0xD8,
          CHR 0xD9, CHR 0xDA, CHR 0xDB, CHR 0xDC, CHR 0xDD, CHR 0xDE]"

definition lower_letters :: string where
  "lower_letters =
     ''abcdefghijklmnopqrstuvwxyz'' @
         [
          CHR 0xE0, CHR 0xE1, CHR 0xE2, CHR 0xE3, CHR 0xE4, CHR 0xE5, CHR 0xE6, CHR 0xE7,
          CHR 0xE8, CHR 0xE9, CHR 0xEA, CHR 0xEB, CHR 0xEC, CHR 0xED, CHR 0xEE, CHR 0xEF,
          CHR 0xF0, CHR 0xF1, CHR 0xF2, CHR 0xF3, CHR 0xF4, CHR 0xF5, CHR 0xF6, CHR 0xF8,
          CHR 0xF9, CHR 0xFA, CHR 0xFB, CHR 0xFC, CHR 0xFD, CHR 0xFE]"

definition toLowerChar :: "char \<Rightarrow> char" where
  "toLowerChar c =
     (case map_of (zip upper_letters lower_letters) c of
        None \<Rightarrow> c
      | Some l \<Rightarrow> l)"

definition toLowerCase :: "string \<Rightarrow> string" where
  "toLowerCase s = map toLowerChar s"




fun str_includes :: "string \<Rightarrow> string \<Rightarrow> bool" where
  "str_includes [] t = (t = [])"
| "str_includes (c # cs) t = (prefix t (c # cs) \<or> str_includes cs t)"

section \<open>The kanban board (frontend/src/components/KanbanBoard.js)\<close>

subsection \<open>Orders as the board holds them\<close>

text \<open>
  An order object as \<^verbatim>\<open>orderService.getOrders\<close> delivers it. A property that may be
  null or missing is an option. \<open>updated_at\<close> holds the time value, in milliseconds, of
  \<^verbatim>\<open>new Date(order.updated_at)\<close>; \<open>None\<close> is an invalid date, whose time value is NaN.
  The two flags \<open>isAssignedToMe\<close> and \<open>hasUrgentIssue\<close> are absent (\<open>None\<close>) or
  arbitrary on the fetched data and are written by \<open>fetchOrders\<close>.
\<close>

record user_ref =
  user_id :: int
  first_name :: string
  last_name :: string

record system_ref =
  system_id :: int
  system_status :: string

record kanban_order =
  order_id :: int
  woo_order_id :: string
  customer_name :: string
  customer_department :: "string option"
  status :: string
  priority :: int
  delivery_method :: "string option"
  assigned_to :: "user_ref option"
  systems :: "system_ref list"
  updated_at :: "int option"
  isAssignedToMe :: "bool option"
  hasUrgentIssue :: "bool option"

text \<open>JavaScript truthiness of a flag that may be missing.\<close>

definition truthy_flag :: "bool option \<Rightarrow> bool" where
  "truthy_flag f = (f = Some True)"

subsection \<open>checkUrgentIssues and fetchOrders\<close>

definition maxDuration :: int where
  "maxDuration = 48 * 60 * 60 * 1000"

text \<open>
  \<open>now\<close> is the time value of \<^verbatim>\<open>new Date()\<close> at the call. A comparison with NaN is
  false, so an order with an invalid date is never urgent.
\<close>

definition checkUrgentIssues :: "int \<Rightarrow> kanban_order \<Rightarrow> bool" where
  "checkUrgentIssues now order =
     (case updated_at order of
        None \<Rightarrow> False
      | Some t \<Rightarrow> now - t > maxDuration \<and> status order \<noteq> ''complete'')"

text \<open>
  \<open>fetchOrders\<close> maps over the fetched data; the clock is read once for each order
  (\<open>clock i\<close> is the reading at the \<open>i\<close>-th call). \<open>me\<close> is \<^verbatim>\<open>user.id\<close>. The result is
  what \<^verbatim>\<open>setOrders\<close> receives.
\<close>

definition fetchOrders :: "(nat \<Rightarrow> int) \<Rightarrow> int \<Rightarrow> kanban_order list \<Rightarrow> kanban_order list" where
  "fetchOrders clock me data =
     map (\<lambda>(i, order). order
            \<lparr> isAssignedToMe :=
                Some (case assigned_to order of None \<Rightarrow> False | Some a \<Rightarrow> user_id a = me),
              hasUrgentIssue := Some (checkUrgentIssues (clock i) order) \<rparr>)
         (enumerate 0 data)"

text \<open>
  What a read of the board sees: an \<^verbatim>\<open>OrderCard\<close> shows the chip "Needs Attention"
  when the \<open>hasUrgentIssue\<close> property of the order it was given is truthy. The card
  reads the property; it does not call \<open>checkUrgentIssues\<close>.
\<close>

definition needs_attention :: "kanban_order \<Rightarrow> bool" where
  "needs_attention order = truthy_flag (hasUrgentIssue order)"

subsection \<open>filteredOrders and getOrdersByStatus\<close>

definition order_filter :: "string \<Rightarrow> string \<Rightarrow> kanban_order \<Rightarrow> bool" where
  "order_filter filterMode searchTerm order =
     (if filterMode = ''assigned'' \<and> \<not> truthy_flag (isAssignedToMe order) then False
      else if filterMode = ''unassigned'' \<and> assigned_to order \<noteq> None then False
      else if searchTerm \<noteq> [] then
        (let searchLower = toLowerCase searchTerm in
           str_includes (toLowerCase (woo_order_id order)) searchLower \<or>
           str_includes (toLowerCase (customer_name order)) searchLower \<or>
           (case customer_department order of
              None \<Rightarrow> False
            | Some d \<Rightarrow> str_includes (toLowerCase d) searchLower))
      else True)"

definition filteredOrders :: "string \<Rightarrow> string \<Rightarrow> kanban_order list \<Rightarrow> kanban_order list" where
  "filteredOrders filterMode searchTerm orders = filter (order_filter filterMode searchTerm) orders"

definition getOrdersByStatus ::
  "string \<Rightarrow> string \<Rightarrow> kanban_order list \<Rightarrow> string \<Rightarrow> kanban_order list" where
  "getOrdersByStatus filterMode searchTerm orders st =
     filter (\<lambda>order. status order = st) (filteredOrders filterMode searchTerm orders)"

subsection \<open>Drag and drop\<close>

text \<open>
  The drag item an \<^verbatim>\<open>OrderCard\<close> carries (built from the order the card shows), the
  status object of a column, and the calls a drop issues, in order. \<open>handleOrderDrop\<close> awaits the service call and refreshes the
  board after it; when the call rejects (\<open>resolved = False\<close>) the error is logged and
  nothing is fetched.
\<close>

record drag_item =
  item_id :: int
  currentStatus :: string

record column_status =
  status_value :: string
  status_label :: string

datatype board_call =
    UpdateOrderStatus int string
  | FetchOrders
  | ConsoleError

definition drag_item_of :: "kanban_order \<Rightarrow> drag_item" where
  "drag_item_of order = \<lparr> item_id = order_id order, currentStatus = status order \<rparr>"

definition handleOrderDrop :: "bool \<Rightarrow> int \<Rightarrow> string \<Rightarrow> board_call list" where
  "handleOrderDrop resolved orderId newStatus =
     UpdateOrderStatus orderId newStatus # (if resolved then [FetchOrders] else [ConsoleError])"

definition column_drop :: "bool \<Rightarrow> column_status \<Rightarrow> drag_item \<Rightarrow> board_call list" where
  "column_drop resolved col item =
     (if currentStatus item \<noteq> status_value col
      then handleOrderDrop resolved (item_id item) (status_value col)
      else [])"

section \<open>JavaScript values on the server\<close>

text \<open>
  A value of a parsed JSON body or of an object handed to \<^verbatim>\<open>res.json\<close>. Numbers are
  the integral ones, \<open>JNaN\<close> is NaN, \<open>JInfinity\<close> is Infinity (negative when its
  argument is true), \<open>JDate\<close> carries the time value of a \<^verbatim>\<open>Date\<close>.
  An object is an association list in property order; reading a missing property gives
  \<open>JUndefined\<close>. A response body is the object as the handler builds it, before
  serialisation.
\<close>

datatype jsval =
    JUndefined
  | JNull
  | JBool bool
  | JNum int
  | JNaN
  | JInfinity bool
  | JStr string
  | JDate int
  | JArr "jsval list"
  | JObj "(string \<times> jsval) list"

definition js_get :: "(string \<times> jsval) list \<Rightarrow> string \<Rightarrow> jsval" where
  "js_get obj k = (case map_of obj k of None \<Rightarrow> JUndefined | Some v \<Rightarrow> v)"

text \<open>\<^verbatim>\<open>{ ...base, ...src }\<close>: every property of \<open>src\<close> is written onto \<open>base\<close>.\<close>

definition js_spread :: "(string \<times> jsval) list \<Rightarrow> (string \<times> jsval) list \<Rightarrow> (string \<times> jsval) list" where
  "js_spread base src = foldl (\<lambda>acc (k, v). AList.update k v acc) base src"

text \<open>
  \<^verbatim>\<open>x.length\<close>. On undefined and null the read throws a TypeError, whose message (as
  V8 words it) is the \<open>Inl\<close> value. An array and a string have their length, an
  object has the property of that name if it has one.
\<close>

definition js_length :: "jsval \<Rightarrow> string + jsval" where
  "js_length v =
     (case v of
        JUndefined \<Rightarrow> Inl ''Cannot read properties of undefined (reading 'length')''
      | JNull \<Rightarrow> Inl ''Cannot read properties of null (reading 'length')''
      | JArr xs \<Rightarrow> Inr (JNum (int (length xs)))
      | JStr cs \<Rightarrow> Inr (JNum (int (length cs)))
      | JObj props \<Rightarrow> Inr (js_get props ''length'')
      | _ \<Rightarrow> Inr JUndefined)"

text \<open>
  \<^verbatim>\<open>parseInt(s)\<close> without a radix: leading white space is skipped, a sign is read,
  a \<^verbatim>\<open>0x\<close> prefix selects base 16, and the longest run of digits is the value; no digit
  gives NaN. The result is a Number: the integer read is rounded to the nearest double
  (ties to the even significand), and Infinity when that is out of range. The sign of
  a zero is not kept.
\<close>

definition is_space :: "char \<Rightarrow> bool" where
  "is_space c =
     (c \<in> set [CHR '' '', CHR 0x09, CHR 0x0A, CHR 0x0B, CHR 0x0C, CHR 0x0D, CHR 0xA0])"

definition digit_of :: "char \<Rightarrow> nat option" where
  "digit_of c =
     map_of (zip ''0123456789abcdefABCDEF''
                 [0, 1, 2, 3, 4, 5, 6, 7, 8, 9, 10, 11, 12, 13, 14, 15, 10, 11, 12, 13, 14, 15]) c"

definition is_digit :: "nat \<Rightarrow> char \<Rightarrow> bool" where
  "is_digit radix c = (case digit_of c of None \<Rightarrow> False | Some d \<Rightarrow> d < radix)"

definition digits_value :: "nat \<Rightarrow> string \<Rightarrow> nat" where
  "digits_value radix ds =
     foldl (\<lambda>acc c. acc * radix + (case digit_of c of None \<Rightarrow> 0 | Some d \<Rightarrow> d)) 0 ds"

fun bit_length :: "nat \<Rightarrow> nat" where
  "bit_length n = (if n = 0 then 0 else Suc (bit_length (n div 2)))"

text \<open>The double nearest to a natural number; \<open>None\<close> is Infinity.\<close>

definition to_double :: "nat \<Rightarrow> nat option" where
  "to_double n =
     (if n < 2 ^ 53 then Some n
      else
        (let e = bit_length n - 53;
             q = n div 2 ^ e;
             r = n mod 2 ^ e;
             half = 2 ^ (e - 1);
             m = (if half < r \<or> (r = half \<and> odd q) then q + 1 else q) * 2 ^ e
         in if m < 2 ^ 1024 then Some m else None))"

definition parseInt :: "string option \<Rightarrow> jsval" where
  "parseInt arg =
     (case arg of
        None \<Rightarrow> JNaN
      | Some s \<Rightarrow>
          (let t = dropWhile is_space s;
               neg = (take 1 t = ''-'');
               t1 = (if take 1 t = ''-'' \<or> take 1 t = ''+'' then drop 1 t else t);
               hex = (take 2 t1 = ''0x'' \<or> take 2 t1 = ''0X'');
               radix = (if hex then 16 else 10);
               t2 = (if hex then drop 2 t1 else t1);
               ds = takeWhile (is_digit radix) t2
           in if ds = [] then JNaN
              else (case to_double (digits_value radix ds) of
                      None \<Rightarrow> JInfinity neg
                    | Some m \<Rightarrow> JNum ((if neg then - 1 else 1) * int m))))"

section \<open>Requests, responses and the middleware chain\<close>

text \<open>
  A request below the mount point \<^verbatim>\<open>/api/orders\<close>: \<open>req_path\<close> is the list of path
  segments, \<open>req_body\<close> the object \<^verbatim>\<open>express.json()\<close> parsed, \<open>req_role\<close> the role of
  the user \<^verbatim>\<open>authenticate\<close> attached, \<open>req_params\<close> what the matched route bound,
  \<open>req_errors\<close> the error objects express-validator recorded so far, and \<open>clock_now\<close>
  the time value \<^verbatim>\<open>new Date()\<close> reads while the request is handled.
\<close>

datatype http_method = GET | POST | PATCH | PUT | DELETE

record request =
  req_method :: http_method
  req_path :: "string list"
  req_query :: "(string \<times> jsval) list"
  req_body :: "(string \<times> jsval) list"
  req_role :: string
  req_params :: "(string \<times> string) list"
  req_errors :: "jsval list"
  clock_now :: int

record response =
  status_code :: int
  body :: jsval

text \<open>A handler either calls \<^verbatim>\<open>next()\<close> or ends the request with a response.\<close>

datatype step = Next request | Respond response

type_synonym handler = "request \<Rightarrow> step"

fun run_chain :: "handler list \<Rightarrow> request \<Rightarrow> step" where
  "run_chain [] req = Next req"
| "run_chain (h # hs) req =
     (case h req of
        Next req' \<Rightarrow> run_chain hs req'
      | Respond r \<Rightarrow> Respond r)"

section \<open>The order controller (controllers/orderController.js)\<close>

text \<open>
  Each handler builds its response from the request alone. \<^verbatim>\<open>res.json\<close> without
  \<^verbatim>\<open>res.status\<close> answers 200. The \<^verbatim>\<open>catch\<close> block of every handler answers 500 with
  the message of the error it caught.
\<close>

definition catch_response :: "string \<Rightarrow> response" where
  "catch_response message = \<lparr> status_code = 500, body = JObj [(''error'', JStr message)] \<rparr>"

definition getOrders :: "request \<Rightarrow> response" where
  "getOrders req =
     \<lparr> status_code = 200,
       body = JArr [JObj [(''id'', JNum 1),
                          (''woo_order_id'', JStr ''WC-1001''),
                          (''customer_name'', JStr ''John Doe''),
                          (''customer_email'', JStr ''john@example.com''),
                          (''customer_department'', JStr ''Engineering''),
                          (''status'', JStr ''ordered''),
                          (''priority'', JNum 1),
                          (''assigned_to'', JNull),
                          (''order_date'', JDate (clock_now req)),
                          (''delivery_method'', JStr ''shipping''),
                          (''systems'', JArr [])]] \<rparr>"

definition getOrderById :: "request \<Rightarrow> response" where
  "getOrderById req =
     \<lparr> status_code = 200,
       body = JObj [(''id'', parseInt (map_of (req_params req) ''id'')),
                    (''woo_order_id'', JStr ''WC-1001''),
                    (''customer_name'', JStr ''John Doe''),
                    (''customer_email'', JStr ''john@example.com''),
                    (''status'', JStr ''ordered'')] \<rparr>"

definition createOrder :: "request \<Rightarrow> response" where
  "createOrder req =
     \<lparr> status_code = 201,
       body = JObj (AList.update ''created_at'' (JDate (clock_now req))
                      (js_spread [(''id'', JNum 1)] (req_body req))) \<rparr>"

definition updateOrderStatus :: "request \<Rightarrow> response" where
  "updateOrderStatus req =
     \<lparr> status_code = 200,
       body = JObj [(''id'', parseInt (map_of (req_params req) ''id'')),
                    (''status'', js_get (req_body req) ''status''),
                    (''updated_at'', JDate (clock_now req))] \<rparr>"

definition assignOrder :: "request \<Rightarrow> response" where
  "assignOrder req =
     \<lparr> status_code = 200,
       body = JObj [(''id'', parseInt (map_of (req_params req) ''id'')),
                    (''assigned_to'', js_get (req_body req) ''user_id''),
                    (''updated_at'', JDate (clock_now req))] \<rparr>"

definition updatePriority :: "request \<Rightarrow> response" where
  "updatePriority req =
     \<lparr> status_code = 200,
       body = JObj [(''id'', parseInt (map_of (req_params req) ''id'')),
                    (''priority'', js_get (req_body req) ''priority''),
                    (''updated_at'', JDate (clock_now req))] \<rparr>"

definition getOrderSystems :: "request \<Rightarrow> response" where
  "getOrderSystems req = \<lparr> status_code = 200, body = JArr [] \<rparr>"

definition completeOrder :: "request \<Rightarrow> response" where
  "completeOrder req =
     \<lparr> status_code = 200,
       body = JObj [(''id'', parseInt (map_of (req_params req) ''id'')),
                    (''status'', JStr ''complete''),
                    (''tracking_number'', js_get (req_body req) ''tracking_number''),
                    (''delivery_confirmation'', js_get (req_body req) ''delivery_confirmation''),
                    (''final_notes'', js_get (req_body req) ''final_notes''),
                    (''completed_at'', JDate (clock_now req))] \<rparr>"

definition bulkAssignOrders :: "request \<Rightarrow> response" where
  "bulkAssignOrders req =
     (let order_ids = js_get (req_body req) ''order_ids'';
          user_id = js_get (req_body req) ''user_id''
      in case js_length order_ids of
           Inl message \<Rightarrow> catch_response message
         | Inr n \<Rightarrow>
             \<lparr> status_code = 200,
               body = JObj [(''updated'', n),
                            (''order_ids'', order_ids),
                            (''assigned_to'', user_id)] \<rparr>)"

section \<open>The orders router (routes/orders.js)\<close>

subsection \<open>Middleware the routes use\<close>

text \<open>
  Modelled from the spec: \<open>authorize\<close> (middleware/auth is not among the sources). The
  spec admits an actor whose role is in the list and fails every other one with
  Forbidden.
\<close>

definition authorize :: "string list \<Rightarrow> handler" where
  "authorize roles req =
     (if req_role req \<in> set roles then Next req
      else Respond \<lparr> status_code = 403, body = JObj [(''error'', JStr ''Forbidden'')] \<rparr>)"

text \<open>
  express-validator is a dependency of the repository, so what a validation chain finds
  on a request is a parameter: \<open>validate v field check req\<close> is the list of error
  objects the chain \<^verbatim>\<open>body(field).check\<close> reports for the request, wildcards in the
  field included. What the routes rely on is how a chain runs as a middleware: it
  records its errors on the request and always calls \<^verbatim>\<open>next()\<close>; it never answers the
  request itself. \<open>create_chains\<close> stands for the five chains of the create route,
  whose sanitisers may also rewrite the body.
\<close>

datatype check =
    IsIn "string list"
  | IsInt "int option" "int option"
  | IsArray nat

record validators =
  validate :: "string \<Rightarrow> check \<Rightarrow> request \<Rightarrow> jsval list"
  create_chains :: "request \<Rightarrow> request"

definition check_body :: "validators \<Rightarrow> string \<Rightarrow> check \<Rightarrow> handler" where
  "check_body v field chk req =
     Next (req \<lparr> req_errors := req_errors req @ validate v field chk req \<rparr>)"

text \<open>
  The middleware at the end of the router: \<^verbatim>\<open>validationResult(req)\<close> reads the errors
  recorded on the request and \<^verbatim>\<open>errors.array()\<close> lists them.
\<close>

definition validation_errors :: handler where
  "validation_errors req =
     (if req_errors req \<noteq> []
      then Respond \<lparr> status_code = 400, body = JObj [(''errors'', JArr (req_errors req))] \<rparr>
      else Next req)"

definition controller :: "(request \<Rightarrow> response) \<Rightarrow> handler" where
  "controller h req = Respond (h req)"

subsection \<open>Layers and dispatch\<close>

text \<open>
  The router is the list of its layers in the order the file registers them. A route
  layer runs when method and path match; \<^verbatim>\<open>router.use\<close> without a path runs on every
  request that reaches it. A layer is reached only when every handler before it called
  \<^verbatim>\<open>next()\<close>. \<open>Next\<close> from \<open>dispatch\<close> is a request that leaves the router unanswered.
  The router is created without options, so a literal segment of a route matches
  whatever the case of its letters.
\<close>

datatype path_seg = Lit string | Param string

datatype layer =
    Route http_method "path_seg list" "handler list"
  | Use handler

fun match_path :: "path_seg list \<Rightarrow> string list \<Rightarrow> (string \<times> string) list option" where
  "match_path [] [] = Some []"
| "match_path (Lit l # ps) (s # ss) =
     (if toLowerCase l = toLowerCase s then match_path ps ss else None)"
| "match_path (Param k # ps) (s # ss) =
     (if s \<noteq> [] then map_option (\<lambda>bound. (k, s) # bound) (match_path ps ss) else None)"
| "match_path _ _ = None"

fun dispatch :: "layer list \<Rightarrow> request \<Rightarrow> step" where
  "dispatch [] req = Next req"
| "dispatch (Use h # ls) req =
     (case h req of
        Next req' \<Rightarrow> dispatch ls req'
      | Respond r \<Rightarrow> Respond r)"
| "dispatch (Route m pat hs # ls) req =
     (if req_method req = m then
        (case match_path pat (req_path req) of
           None \<Rightarrow> dispatch ls req
         | Some bound \<Rightarrow>
             (case run_chain hs (req \<lparr> req_params := bound \<rparr>) of
                Next req' \<Rightarrow> dispatch ls req'
              | Respond r \<Rightarrow> Respond r))
      else dispatch ls req)"

definition order_statuses :: "string list" where
  "order_statuses = [''ordered'', ''in_progress'', ''qa_review'', ''ready_to_deliver'', ''complete'']"

definition router :: "validators \<Rightarrow> layer list" where
  "router v =
     [ Route GET [] [controller getOrders],
       Route GET [Param ''id''] [controller getOrderById],
       Route POST [] [\<lambda>req. Next (create_chains v req), controller createOrder],
       Route PATCH [Param ''id'', Lit ''status'']
         [check_body v ''status'' (IsIn order_statuses), controller updateOrderStatus],
       Route PATCH [Param ''id'', Lit ''assign'']
         [authorize [''manager'', ''admin''],
          check_body v ''user_id'' (IsInt (Some 1) None),
          controller assignOrder],
       Route PATCH [Param ''id'', Lit ''priority'']
         [authorize [''manager'', ''admin''],
          check_body v ''priority'' (IsInt (Some 0) (Some 5)),
          controller updatePriority],
       Route GET [Param ''id'', Lit ''systems''] [controller getOrderSystems],
       Route POST [Param ''id'', Lit ''complete''] [controller completeOrder],
       Route POST [Lit ''bulk-assign'']
         [authorize [''manager'', ''admin''],
          check_body v ''order_ids'' (IsArray 1),
          check_body v ''order_ids.*'' (IsInt None None),
          check_body v ''user_id'' (IsInt (Some 1) None),
          controller bulkAssignOrders],
       Use validation_errors ]"

text \<open>The response of a step, when the request was answered.\<close>

definition response_of :: "step \<Rightarrow> response option" where
  "response_of s = (case s of Next req \<Rightarrow> None | Respond r \<Rightarrow> Some r)"

section \<open>The stored state (database/init.sql)\<close>

text \<open>
  The rows of the tables the lifecycle is about, with the columns that carry it. A
  column that admits NULL is an option.
\<close>

record order_row =
  o_id :: int
  o_woo_order_id :: string
  o_customer_name :: string
  o_customer_email :: string
  o_customer_department :: "string option"
  o_status :: string
  o_priority :: "int option"
  o_assigned_to :: "int option"

record system_row =
  s_id :: int
  s_order_id :: "int option"
  s_status :: "string option"

record checklist_step =
  step_id :: int
  step_template_id :: "int option"
  step_order :: int
  requires_qa :: "bool option"

record system_checklist =
  cl_id :: int
  cl_system_id :: "int option"
  cl_template_id :: "int option"

record checklist_completion =
  cc_id :: int
  system_checklist_id :: "int option"
  cc_step_id :: "int option"
  completed_by :: "int option"
  completed_at :: "int option"
  qa_checked_by :: "int option"
  qa_checked_at :: "int option"

record store =
  orders :: "order_row list"
  systems_rows :: "system_row list"
  checklist_steps :: "checklist_step list"
  system_checklists :: "system_checklist list"
  checklist_completions :: "checklist_completion list"

text \<open>
  Serving a request: the router answers it. No handler of the router holds a
  database handle, so the stored state after the request is the state before it.
\<close>

definition serve :: "validators \<Rightarrow> store \<Rightarrow> request \<Rightarrow> step \<times> store" where
  "serve v db req = (dispatch (router v) req, db)"

definition find_order :: "store \<Rightarrow> int \<Rightarrow> order_row option" where
  "find_order db i = find (\<lambda>row. o_id row = i) (orders db)"

definition owned_systems :: "store \<Rightarrow> int \<Rightarrow> system_row list" where
  "owned_systems db i = filter (\<lambda>sys. s_order_id sys = Some i) (systems_rows db)"

section \<open>The error handler (middleware/errorHandler.js)\<close>





section \<open>Derived completion of a system\<close>

text \<open>
  Modelled from the spec: the derived status of a system. No function among the
  sources computes it; the tables it reads are those of database/init.sql. The spec
  calls a system complete when its checklist has zero incomplete steps; a step of the
  instantiated checklist is done when a completion row keyed by checklist and step
  has a completion timestamp and, where the step requires QA, a QA-check timestamp.
\<close>

definition instantiated_steps :: "store \<Rightarrow> system_checklist \<Rightarrow> checklist_step list" where
  "instantiated_steps db cl =
     filter (\<lambda>st. step_template_id st \<noteq> None \<and> step_template_id st = cl_template_id cl)
            (checklist_steps db)"

definition completion_counts :: "checklist_step \<Rightarrow> checklist_completion \<Rightarrow> bool" where
  "completion_counts st c =
     (completed_at c \<noteq> None \<and> (if requires_qa st = Some True then qa_checked_at c \<noteq> None else True))"

definition step_done :: "store \<Rightarrow> system_checklist \<Rightarrow> checklist_step \<Rightarrow> bool" where
  "step_done db cl st =
     list_ex (\<lambda>c. system_checklist_id c = Some (cl_id cl) \<and> cc_step_id c = Some (step_id st)
                  \<and> completion_counts st c)
             (checklist_completions db)"

definition incomplete_steps :: "store \<Rightarrow> system_checklist \<Rightarrow> checklist_step list" where
  "incomplete_steps db cl = filter (\<lambda>st. \<not> step_done db cl st) (instantiated_steps db cl)"

definition checklists_of :: "store \<Rightarrow> int \<Rightarrow> system_checklist list" where
  "checklists_of db sid = filter (\<lambda>cl. cl_system_id cl = Some sid) (system_checklists db)"

definition system_complete :: "store \<Rightarrow> int \<Rightarrow> bool" where
  "system_complete db sid =
     list_all (\<lambda>cl. length (incomplete_steps db cl) = 0) (checklists_of db sid)"

section \<open>Sample data\<close>

text \<open>
  The order the mock \<^verbatim>\<open>orderService.getOrders\<close> of the board returns, with \<open>t\<close> the time
  value of its \<^verbatim>\<open>updated_at\<close>, the same order for a customer whose name ends in a
  capital E with acute accent (U+00C9), and the first column of the board.
\<close>

definition mock_order :: "int \<Rightarrow> kanban_order" where
  "mock_order t =
     \<lparr> order_id = 1, woo_order_id = ''WC-1001'', customer_name = ''John Doe'',
       customer_department = Some ''Engineering'', status = ''ordered'', priority = 1,
       delivery_method = Some ''shipping'', assigned_to = None,
       systems = [\<lparr> system_id = 1, system_status = ''pending'' \<rparr>],
       updated_at = Some t, isAssignedToMe = None, hasUrgentIssue = None \<rparr>"


definition ordered_column :: column_status where
  "ordered_column = \<lparr> status_value = ''ordered'', status_label = ''Ordered'' \<rparr>"

text \<open>
  A request as it enters the router, a store without rows, and the store of the
  scenario of one order with one system and a checklist of two steps, the second of
  which requires QA; its completion rows are the argument.
\<close>

definition api_request ::
  "http_method \<Rightarrow> string list \<Rightarrow> (string \<times> jsval) list \<Rightarrow> string \<Rightarrow> int \<Rightarrow> request" where
  "api_request m p b role now =
     \<lparr> req_method = m, req_path = p, req_query = [], req_body = b, req_role = role,
       req_params = [], req_errors = [], clock_now = now \<rparr>"

definition db0 :: store where
  "db0 = \<lparr> orders = [], systems_rows = [], checklist_steps = [], system_checklists = [],
           checklist_completions = [] \<rparr>"

definition completion_row :: "int \<Rightarrow> int \<Rightarrow> int option \<Rightarrow> int option \<Rightarrow> checklist_completion" where
  "completion_row i st done_at qa_at =
     \<lparr> cc_id = i, system_checklist_id = Some 1, cc_step_id = Some st,
       completed_by = map_option (\<lambda>t. 7) done_at, completed_at = done_at,
       qa_checked_by = map_option (\<lambda>t. 8) qa_at, qa_checked_at = qa_at \<rparr>"

definition db1 :: "checklist_completion list \<Rightarrow> store" where
  "db1 completions =
     \<lparr> orders = [\<lparr> o_id = 1, o_woo_order_id = ''WC-1001'', o_customer_name = ''John Doe'',
                   o_customer_email = ''john@example.com'',
                   o_customer_department = Some ''Engineering'', o_status = ''ordered'',
                   o_priority = Some 1, o_assigned_to = None \<rparr>],
       systems_rows = [\<lparr> s_id = 1, s_order_id = Some 1, s_status = Some ''pending'' \<rparr>],
       checklist_steps =
         [\<lparr> step_id = 1, step_template_id = Some 1, step_order = 1, requires_qa = Some False \<rparr>,
          \<lparr> step_id = 2, step_template_id = Some 1, step_order = 2, requires_qa = Some True \<rparr>],
       system_checklists = [\<lparr> cl_id = 1, cl_system_id = Some 1, cl_template_id = Some 1 \<rparr>],
       checklist_completions = completions \<rparr>"

definition create_body :: "(string \<times> jsval) list" where
  "create_body = [(''woo_order_id'', JStr ''WC-1001''), (''customer_name'', JStr ''John Doe''),
                  (''customer_email'', JStr ''john@example.com''),
                  (''order_date'', JStr ''2024-01-15T10:00:00Z''),
                  (''delivery_method'', JStr ''shipping'')]"



section \<open>Properties of the board\<close>










lemma checkUrgent_update:
  "checkUrgentIssues now (order\<lparr>hasUrgentIssue := x\<rparr>) = checkUrgentIssues now order"
  by (simp add: checkUrgentIssues_def split: option.splits)

lemma fetched_flag:
  assumes "ord \<in> set (fetchOrders clock me data)"
  shows "\<exists>i < length data.
           ord = (data ! i) \<lparr> isAssignedToMe := isAssignedToMe ord,
                                hasUrgentIssue := Some (checkUrgentIssues (clock i) (data ! i)) \<rparr>
           \<and> hasUrgentIssue ord = Some (checkUrgentIssues (clock i) (data ! i))"
  using assms by (auto simp: fetchOrders_def in_set_enumerate_eq)

text \<open>
  Claim C7 as stated, that the flag is recomputed on every read and never stored,
  fails. The board fetches the mock order at the moment of its last update, so the
  flag it stores is false. A read of the column more than 48 hours later returns the
  order with the stored flag, and the card shows no chip, although
  \<open>checkUrgentIssues\<close> at the time of the read is true.
\<close>

theorem urgent_flag_stale_counterexample:
  "map needs_attention
     (getOrdersByStatus ''all'' [] (fetchOrders (\<lambda>i. 0) 1 [mock_order 0]) ''ordered'') = [False]
   \<and> map (checkUrgentIssues 172800001)
     (getOrdersByStatus ''all'' [] (fetchOrders (\<lambda>i. 0) 1 [mock_order 0]) ''ordered'') = [True]"
  by (simp add: getOrdersByStatus_def filteredOrders_def order_filter_def fetchOrders_def
      mock_order_def needs_attention_def truthy_flag_def checkUrgentIssues_def maxDuration_def)

text \<open>
  Claim C7, amended. \<open>checkUrgentIssues\<close> is a function of the clock reading and the
  order alone: it is true exactly when the status is not complete and more than 48
  hours (172800000 ms) have passed since \<open>updated_at\<close>. Every \<open>fetchOrders\<close> computes
  the flag anew for each order, whatever flag the fetched data carried, and stores it
  with the order in the state of the board. A read of the board between two fetches
  returns the flag of the last fetch: every order of a column is a fetched order with
  the flag computed from the clock reading of that fetch, and that is what its card
  shows.
\<close>

theorem urgent_flag_computed_at_fetch:
  "(checkUrgentIssues now order \<longleftrightarrow>
      status order \<noteq> ''complete'' \<and> (\<exists>t. updated_at order = Some t \<and> now - t > 172800000))
   \<and> map hasUrgentIssue (fetchOrders clock me data) =
       map (\<lambda>(i, order). Some (checkUrgentIssues (clock i) order)) (enumerate 0 data)
   \<and> map hasUrgentIssue (fetchOrders clock me (map (\<lambda>order. order\<lparr>hasUrgentIssue := stored order\<rparr>) data)) =
       map hasUrgentIssue (fetchOrders clock me data)
   \<and> (\<forall>ord \<in> set (getOrdersByStatus filterMode searchTerm (fetchOrders clock me data) st).
         \<exists>i < length data.
           ord = (data ! i) \<lparr> isAssignedToMe := isAssignedToMe ord,
                                hasUrgentIssue := Some (checkUrgentIssues (clock i) (data ! i)) \<rparr>
           \<and> needs_attention ord = checkUrgentIssues (clock i) (data ! i))"
proof (intro conjI)
  show "checkUrgentIssues now order \<longleftrightarrow>
      status order \<noteq> ''complete'' \<and> (\<exists>t. updated_at order = Some t \<and> now - t > 172800000)"
    by (auto simp: checkUrgentIssues_def maxDuration_def split: option.splits)
  show flags: "map hasUrgentIssue (fetchOrders clock me data) =
       map (\<lambda>(i, order). Some (checkUrgentIssues (clock i) order)) (enumerate 0 data)" for data
    by (simp add: fetchOrders_def split_def)
  show "map hasUrgentIssue (fetchOrders clock me (map (\<lambda>order. order\<lparr>hasUrgentIssue := stored order\<rparr>) data)) =
       map hasUrgentIssue (fetchOrders clock me data)"
    unfolding flags by (simp add: enumerate_eq_zip zip_map2 split_def o_def checkUrgent_update)
  show "\<forall>ord \<in> set (getOrdersByStatus filterMode searchTerm (fetchOrders clock me data) st).
         \<exists>i < length data.
           ord = (data ! i) \<lparr> isAssignedToMe := isAssignedToMe ord,
                                hasUrgentIssue := Some (checkUrgentIssues (clock i) (data ! i)) \<rparr>
           \<and> needs_attention ord = checkUrgentIssues (clock i) (data ! i)"
  proof
    fix ord
    assume "ord \<in> set (getOrdersByStatus filterMode searchTerm (fetchOrders clock me data) st)"
    then have "ord \<in> set (fetchOrders clock me data)"
      by (simp add: getOrdersByStatus_def filteredOrders_def)
    from fetched_flag [OF this]
    show "\<exists>i < length data.
           ord = (data ! i) \<lparr> isAssignedToMe := isAssignedToMe ord,
                                hasUrgentIssue := Some (checkUrgentIssues (clock i) (data ! i)) \<rparr>
           \<and> needs_attention ord = checkUrgentIssues (clock i) (data ! i)"
      by (auto simp: needs_attention_def truthy_flag_def)
  qed
qed

theorem urgent_flag_computed_at_fetch_witness:
  "checkUrgentIssues 172800001 (mock_order 0) \<and> \<not> checkUrgentIssues 172800000 (mock_order 0)
   \<and> map hasUrgentIssue (fetchOrders (\<lambda>i. 172800001) 1 [mock_order 0]) = [Some True]
   \<and> map needs_attention
       (getOrdersByStatus ''all'' [] (fetchOrders (\<lambda>i. 172800001) 1 [mock_order 0]) ''ordered'')
       = [True]"
proof -
  note t = urgent_flag_computed_at_fetch
  have a: "checkUrgentIssues 172800001 (mock_order 0)"
    by (rule t [THEN conjunct1, THEN iffD2]) (simp add: mock_order_def)
  have b: "\<not> checkUrgentIssues 172800000 (mock_order 0)"
    using t [THEN conjunct1, THEN iffD1, of 172800000 "mock_order 0"]
    by (auto simp: mock_order_def)
  have c: "map hasUrgentIssue (fetchOrders (\<lambda>i. 172800001) 1 [mock_order 0]) = [Some True]"
    using t [THEN conjunct2, THEN conjunct1, of "\<lambda>i. 172800001" 1 "[mock_order 0]"] a
    by simp
  let ?R = "getOrdersByStatus ''all'' [] (fetchOrders (\<lambda>i. 172800001) 1 [mock_order 0]) ''ordered''"
  have len: "length ?R = 1"
    by (simp add: getOrdersByStatus_def filteredOrders_def order_filter_def fetchOrders_def
        mock_order_def)
  then obtain x where x: "?R = [x]"
    by (cases ?R) auto
  from t [THEN conjunct2, THEN conjunct2, THEN conjunct2, THEN bspec, of x "''all''" "[]"
          "\<lambda>i. 172800001" 1 "[mock_order 0]" "''ordered''"] x a
  have "needs_attention x" by simp
  with x have d: "map needs_attention ?R = [True]" by simp
  from a b c d show ?thesis by blast
qed



lemmas lower_defs = toLowerCase_def toLowerChar_def upper_letters_def lower_letters_def


text \<open>
  Claim C10. Dropping a card on the column of its own status issues no call at all;
  every status update a drop issues has a target status different from the card's.
\<close>

theorem no_op_drop_suppressed:
  "(status order = status_value col \<longrightarrow> column_drop resolved col (drag_item_of order) = [])
   \<and> (\<forall>i s. UpdateOrderStatus i s \<in> set (column_drop resolved col (drag_item_of order)) \<longrightarrow>
          i = order_id order \<and> s = status_value col \<and> s \<noteq> status order)"
  by (auto simp: column_drop_def handleOrderDrop_def drag_item_of_def split: if_splits)

theorem no_op_drop_suppressed_witness:
  "status (mock_order 0) = status_value ordered_column
   \<and> column_drop True ordered_column (drag_item_of (mock_order 0)) = []"
proof -
  have s: "status (mock_order 0) = status_value ordered_column"
    by (simp add: mock_order_def ordered_column_def)
  from no_op_drop_suppressed [THEN conjunct1, THEN mp, OF s] s show ?thesis by simp
qed

section \<open>Properties of the server\<close>

lemmas eval_defs = serve_def router_def api_request_def authorize_def check_body_def
  controller_def js_get_def parseInt_def is_space_def is_digit_def digit_of_def digits_value_def
  to_double_def Let_def lower_defs

lemma step_done_iff:
  "step_done db cl st \<longleftrightarrow>
     (\<exists>c \<in> set (checklist_completions db).
        system_checklist_id c = Some (cl_id cl) \<and> cc_step_id c = Some (step_id st)
        \<and> completed_at c \<noteq> None
        \<and> (requires_qa st = Some True \<longrightarrow> qa_checked_at c \<noteq> None))"
  by (auto simp: step_done_def completion_counts_def list_ex_iff)

lemma checklist_complete_iff:
  "length (incomplete_steps db cl) = 0 \<longleftrightarrow>
     (\<forall>st \<in> set (checklist_steps db).
        step_template_id st \<noteq> None \<and> step_template_id st = cl_template_id cl \<longrightarrow>
        step_done db cl st)"
  by (auto simp: incomplete_steps_def instantiated_steps_def filter_empty_conv)

text \<open>
  Claim C2. The derived status of a system is complete if and only if, for every step
  of its instantiated checklist, a completion row for that checklist and step exists
  with a completion timestamp and, when the step requires QA, a QA-check timestamp.
\<close>

theorem system_complete_iff:
  "system_complete db sid \<longleftrightarrow>
     (\<forall>cl \<in> set (system_checklists db). cl_system_id cl = Some sid \<longrightarrow>
        (\<forall>st \<in> set (checklist_steps db).
           step_template_id st \<noteq> None \<and> step_template_id st = cl_template_id cl \<longrightarrow>
           (\<exists>c \<in> set (checklist_completions db).
              system_checklist_id c = Some (cl_id cl) \<and> cc_step_id c = Some (step_id st)
              \<and> completed_at c \<noteq> None
              \<and> (requires_qa st = Some True \<longrightarrow> qa_checked_at c \<noteq> None))))"
  unfolding system_complete_def checklists_of_def list_all_iff checklist_complete_iff step_done_iff
  by (simp add: Ball_def imp_conjL)

theorem system_complete_iff_witness:
  "\<not> system_complete (db1 []) 1
   \<and> \<not> system_complete (db1 [completion_row 1 1 (Some 1000) None]) 1
   \<and> \<not> system_complete (db1 [completion_row 1 1 (Some 1000) None, completion_row 2 2 (Some 2000) None]) 1
   \<and> system_complete (db1 [completion_row 1 1 (Some 1000) None, completion_row 2 2 (Some 2000) (Some 3000)]) 1"
  unfolding system_complete_iff
  by (simp add: db1_def completion_row_def)

text \<open>
  Claim C1. Marking an order complete while one of its systems is not complete has to
  fail and name the blocking systems. The handler answers 200 with status complete for
  the order of the scenario, whose only system is pending with no step done.
\<close>

theorem complete_order_with_pending_system:
  "owned_systems (db1 []) 1 = [\<lparr> s_id = 1, s_order_id = Some 1, s_status = Some ''pending'' \<rparr>]
   \<and> system_complete (db1 []) 1 = False
   \<and> serve v (db1 []) (api_request POST [''1'', ''complete''] [] ''staff'' now) =
       (Respond \<lparr> status_code = 200,
                  body = JObj [(''id'', JNum 1), (''status'', JStr ''complete''),
                               (''tracking_number'', JUndefined),
                               (''delivery_confirmation'', JUndefined),
                               (''final_notes'', JUndefined),
                               (''completed_at'', JDate now)] \<rparr>,
        db1 [])"
proof (intro conjI)
  show "owned_systems (db1 []) 1 = [\<lparr> s_id = 1, s_order_id = Some 1, s_status = Some ''pending'' \<rparr>]"
    by (simp add: owned_systems_def db1_def)
  show "system_complete (db1 []) 1 = False"
    by (simp add: system_complete_def checklists_of_def incomplete_steps_def instantiated_steps_def
        step_done_def db1_def)
  show "serve v (db1 []) (api_request POST [''1'', ''complete''] [] ''staff'' now) =
       (Respond \<lparr> status_code = 200,
                  body = JObj [(''id'', JNum 1), (''status'', JStr ''complete''),
                               (''tracking_number'', JUndefined),
                               (''delivery_confirmation'', JUndefined),
                               (''final_notes'', JUndefined),
                               (''completed_at'', JDate now)] \<rparr>,
        db1 [])"
    by (simp add: eval_defs completeOrder_def)
qed

text \<open>
  Claim C3. A transition to the status the order already has must be rejected. For the
  stored order 1, whose status is ordered, the request for status ordered is answered
  200 with that status.
\<close>

theorem same_status_transition_accepted:
  "map_option o_status (find_order (db1 []) 1) = Some ''ordered''
   \<and> serve v (db1 []) (api_request PATCH [''1'', ''status''] [(''status'', JStr ''ordered'')] ''staff'' now) =
       (Respond \<lparr> status_code = 200,
                  body = JObj [(''id'', JNum 1), (''status'', JStr ''ordered''),
                               (''updated_at'', JDate now)] \<rparr>,
        db1 [])"
  by (simp add: eval_defs updateOrderStatus_def find_order_def db1_def)

text \<open>
  Claim C4. A second creation with the same external reference must fail with a
  conflict and leave exactly one such order. Both calls are answered 201 with id 1,
  and no order with that reference is stored afterwards.
\<close>

theorem duplicate_create_accepted:
  "createOrder (api_request POST [] create_body ''staff'' now) =
     \<lparr> status_code = 201,
       body = JObj [(''id'', JNum 1), (''woo_order_id'', JStr ''WC-1001''),
                    (''customer_name'', JStr ''John Doe''),
                    (''customer_email'', JStr ''john@example.com''),
                    (''order_date'', JStr ''2024-01-15T10:00:00Z''),
                    (''delivery_method'', JStr ''shipping''),
                    (''created_at'', JDate now)] \<rparr>
   \<and> map_option status_code (response_of (fst (serve v db0 (api_request POST [] create_body ''staff'' t1)))) = Some 201
   \<and> map_option status_code (response_of (fst (serve v (snd (serve v db0 (api_request POST [] create_body ''staff'' t1)))
                                    (api_request POST [] create_body ''staff'' t2)))) = Some 201
   \<and> length (filter (\<lambda>row. o_woo_order_id row = ''WC-1001'')
        (orders (snd (serve v (snd (serve v db0 (api_request POST [] create_body ''staff'' t1)))
                                    (api_request POST [] create_body ''staff'' t2))))) = 0"
  by (simp add: eval_defs createOrder_def create_body_def js_spread_def response_of_def db0_def)


text \<open>
  A chain that finds errors records them and goes on to the next handler; were
  \<open>validation_errors\<close> that handler, the request would be answered 400. It is the
  last layer instead, behind the controllers, which answer the request themselves: no
  request that enters the router without recorded errors is answered 400.
\<close>

lemma validation_errors_after_check:
  "validate v field chk req \<noteq> [] \<Longrightarrow>
     run_chain [check_body v field chk, validation_errors] req =
       Respond \<lparr> status_code = 400,
                 body = JObj [(''errors'', JArr (req_errors req @ validate v field chk req))] \<rparr>"
  by (simp add: check_body_def validation_errors_def)

lemma bulk_status: "status_code (bulkAssignOrders req) \<noteq> 400"
  by (simp add: bulkAssignOrders_def catch_response_def Let_def split: sum.splits)

lemma validation_never_answers:
  assumes "req_errors req = []" and "dispatch (router v) req = Respond r"
  shows "status_code r \<noteq> 400"
  using assms
  apply (simp add: router_def controller_def authorize_def check_body_def validation_errors_def
     getOrders_def getOrderById_def createOrder_def updateOrderStatus_def assignOrder_def updatePriority_def
     getOrderSystems_def completeOrder_def
      split: if_splits option.splits step.splits)
  apply (auto simp: bulk_status)
  done

text \<open>
  Claim C6. A priority outside 0 to 5 must fail validation before the priority update
  runs. The request with priority 9 from a manager reaches \<open>updatePriority\<close> and is
  answered 200 with priority 9; the middleware that turns a recorded validation error
  into a 400 sits behind the route and is not reached.
\<close>

theorem priority_out_of_range_accepted:
  "serve v (db1 []) (api_request PATCH [''1'', ''priority''] [(''priority'', JNum 9)] ''manager'' now) =
     (Respond \<lparr> status_code = 200,
                body = JObj [(''id'', JNum 1), (''priority'', JNum 9),
                             (''updated_at'', JDate now)] \<rparr>,
      db1 [])
   \<and> validation_errors
        ((api_request PATCH [''1'', ''priority''] [(''priority'', JNum 9)] ''manager'' now)
           \<lparr> req_errors := [e] \<rparr>) =
       Respond \<lparr> status_code = 400, body = JObj [(''errors'', JArr [e])] \<rparr>"
  by (simp add: eval_defs updatePriority_def validation_errors_def)





end
